theory Spec2Isabelle
  imports Main
begin

text \<open>
  A shallow embedding of the cart logic of \<^verbatim>\<open>simple_shop.py\<close>: the static
  product table, the cart as a list of lines, and the six functions that read or
  change it. Python integers are unbounded, so ids, prices and quantities are \<open>int\<close>.
  The functions that mutate \<^verbatim>\<open>cart_list\<close> in place return the new list together
  with their result.
\<close>

section \<open>Backend data\<close>

record product =
  name :: string
  price :: int

text \<open>
  \<^verbatim>\<open>PRODUCTS\<close> is a dict literal. A Python dict keeps the insertion order of its
  keys, so the table is an association list in the order of the literal; its keys
  are distinct, hence \<^verbatim>\<open>PRODUCTS.items()\<close> is the list itself and
  \<^verbatim>\<open>PRODUCTS.get(pid)\<close> is the lookup in it.
\<close>

definition PRODUCTS :: "(int \<times> product) list" where
  "PRODUCTS =
     [(1, \<lparr>name = ''Laptop'', price = 120000\<rparr>),
      (2, \<lparr>name = ''Smartphone'', price = 60000\<rparr>),
      (3, \<lparr>name = ''Headphones'', price = 5000\<rparr>),
      (4, \<lparr>name = ''Keyboard'', price = 2500\<rparr>),
      (5, \<lparr>name = ''Mouse'', price = 1500\<rparr>)]"

definition PRODUCTS_get :: "int \<Rightarrow> product option" where
  "PRODUCTS_get pid = map_of PRODUCTS pid"

text \<open>A cart line is the dict \<^verbatim>\<open>{"product_id": int, "quantity": int}\<close>.\<close>

record cart_line =
  product_id :: int
  quantity :: int

type_synonym cart = "cart_line list"

text \<open>
  The functions return a pair of a success flag and an optional message. The three
  messages of the source are the three errors of the specification.
\<close>

datatype error = InvalidProduct | InvalidQuantity | ItemNotFound

fun message :: "error \<Rightarrow> string" where
  "message InvalidProduct = ''Invalid Product ID''"
| "message InvalidQuantity = ''Quantity must be at least 1''"
| "message ItemNotFound = ''Item not found in cart''"

type_synonym result = "bool \<times> error option"

section \<open>Functions\<close>

text \<open>
  \<^verbatim>\<open>show_products\<close>: the loop over \<^verbatim>\<open>PRODUCTS.items()\<close> appends one triple
  per entry to \<^verbatim>\<open>data\<close>.
\<close>

fun show_products_loop ::
  "(int \<times> product) list \<Rightarrow> (int \<times> string \<times> int) list \<Rightarrow> (int \<times> string \<times> int) list" where
  "show_products_loop [] data = data"
| "show_products_loop ((pid, info) # rest) data =
     show_products_loop rest (data @ [(pid, name info, price info)])"

definition show_products :: "(int \<times> string \<times> int) list" where
  "show_products = show_products_loop PRODUCTS []"

text \<open>
  \<^verbatim>\<open>find_cart_item\<close> returns the first dict of the list whose \<^verbatim>\<open>product_id\<close>
  equals the argument, or \<^verbatim>\<open>None\<close>. The callers mutate the dict they get, so the
  model returns the reference: the position of that dict in the list. Every dict of
  a cart is created by its own \<^verbatim>\<open>append\<close> in \<^verbatim>\<open>add_to_cart\<close>, so no two
  positions hold the same object.
\<close>

fun find_cart_item :: "cart \<Rightarrow> int \<Rightarrow> nat option" where
  "find_cart_item [] pid = None"
| "find_cart_item (item # rest) pid =
     (if product_id item = pid then Some 0
      else map_option Suc (find_cart_item rest pid))"

text \<open>
  \<^verbatim>\<open>add_to_cart\<close>. A found item is a non-empty dict, so \<^verbatim>\<open>if existing_item\<close>
  tests only whether one was found.
\<close>

definition add_to_cart :: "cart \<Rightarrow> int \<Rightarrow> int \<Rightarrow> result \<times> cart" where
  "add_to_cart cart_list pid qty =
     (if PRODUCTS_get pid = None then ((False, Some InvalidProduct), cart_list)
      else if qty \<le> 0 then ((False, Some InvalidQuantity), cart_list)
      else
        (case find_cart_item cart_list pid of
           Some i \<Rightarrow>
             ((True, None),
              cart_list[i := (cart_list ! i)\<lparr>quantity := quantity (cart_list ! i) + qty\<rparr>])
         | None \<Rightarrow>
             ((True, None), cart_list @ [\<lparr>product_id = pid, quantity = qty\<rparr>])))"

text \<open>
  \<^verbatim>\<open>view_cart\<close>: the loop appends one dict with five keys to \<^verbatim>\<open>items\<close> for
  each line whose product is found.
\<close>

record line_detail =
  d_product_id :: int
  d_name :: string
  d_price :: int
  d_quantity :: int
  d_subtotal :: int

fun view_cart_loop :: "cart \<Rightarrow> line_detail list \<Rightarrow> line_detail list" where
  "view_cart_loop [] items = items"
| "view_cart_loop (item # rest) items =
     (let pid = product_id item; qty = quantity item in
      case PRODUCTS_get pid of
        Some prd \<Rightarrow>
          view_cart_loop rest
            (items @ [\<lparr>d_product_id = pid, d_name = name prd, d_price = price prd,
                       d_quantity = qty, d_subtotal = price prd * qty\<rparr>])
      | None \<Rightarrow> view_cart_loop rest items)"

definition view_cart :: "cart \<Rightarrow> line_detail list" where
  "view_cart cart_list = view_cart_loop cart_list []"

text \<open>
  \<^verbatim>\<open>remove_from_cart\<close>. \<^verbatim>\<open>cart_list.remove(existing_item)\<close> deletes the first
  element equal to the item, which is \<open>remove1\<close>.
\<close>

definition remove_from_cart :: "cart \<Rightarrow> int \<Rightarrow> int \<Rightarrow> result \<times> cart" where
  "remove_from_cart cart_list pid qty =
     (case find_cart_item cart_list pid of
        None \<Rightarrow> ((False, Some ItemNotFound), cart_list)
      | Some i \<Rightarrow>
          if qty \<le> 0 then ((False, Some InvalidQuantity), cart_list)
          else if qty \<ge> quantity (cart_list ! i)
          then ((True, None), remove1 (cart_list ! i) cart_list)
          else
            ((True, None),
             cart_list[i := (cart_list ! i)\<lparr>quantity := quantity (cart_list ! i) - qty\<rparr>]))"

text \<open>\<^verbatim>\<open>calculate_total\<close>: the loop adds to \<^verbatim>\<open>total\<close>, which starts at 0.\<close>

fun calculate_total_loop :: "cart \<Rightarrow> int \<Rightarrow> int" where
  "calculate_total_loop [] tot = tot"
| "calculate_total_loop (item # rest) tot =
     (let pid = product_id item; qty = quantity item in
      case PRODUCTS_get pid of
        Some prd \<Rightarrow> calculate_total_loop rest (tot + price prd * qty)
      | None \<Rightarrow> calculate_total_loop rest tot)"

definition calculate_total :: "cart \<Rightarrow> int" where
  "calculate_total cart_list = calculate_total_loop cart_list 0"

text \<open>\<^verbatim>\<open>checkout\<close> returns the total and the cleared list.\<close>

definition checkout :: "cart \<Rightarrow> int \<times> cart" where
  "checkout cart_list = (let total = calculate_total cart_list in (total, []))"

section \<open>The session and the invariant of the cart\<close>

text \<open>
  The script keeps one list in \<^verbatim>\<open>st.session_state["cart"]\<close>, created empty, and
  changes it only through \<^verbatim>\<open>add_to_cart\<close>, \<^verbatim>\<open>remove_from_cart\<close> and
  \<^verbatim>\<open>checkout\<close>, one call for each button pressed, whatever the call returns. A
  session is the list of these calls. The screens restrict the calls further (ids and
  quantities from 1 upwards, no removal and no checkout while the cart is empty); a
  session of the model may make any call with any arguments.
\<close>

datatype action = AddToCart int int | RemoveItem int int | ConfirmCheckout

fun perform :: "cart \<Rightarrow> action \<Rightarrow> cart" where
  "perform cart_list (AddToCart prod_id qty) = snd (add_to_cart cart_list prod_id qty)"
| "perform cart_list (RemoveItem prod_id qty) = snd (remove_from_cart cart_list prod_id qty)"
| "perform cart_list ConfirmCheckout = snd (checkout cart_list)"

definition session :: "action list \<Rightarrow> cart" where
  "session actions = foldl perform [] actions"

text \<open>
  The invariant of the specification: every line names a product of the catalog and
  has a quantity above 0.
\<close>

definition cart_inv :: "cart \<Rightarrow> bool" where
  "cart_inv cart_list =
     list_all (\<lambda>item. PRODUCTS_get (product_id item) \<noteq> None \<and> 0 < quantity item) cart_list"

section \<open>Totals and details as the specification words them\<close>

text \<open>
  The specification describes \<^verbatim>\<open>calculate_total\<close> and \<^verbatim>\<open>view_cart\<close> by
  the lines that resolve in the catalog, and by the name and price that the catalog
  has for a line. These definitions follow its words; the theorems below compare the
  loops of the source with them.
\<close>

definition resolves :: "cart_line \<Rightarrow> bool" where
  "resolves item = (PRODUCTS_get (product_id item) \<noteq> None)"

definition catalog_price :: "cart_line \<Rightarrow> int" where
  "catalog_price item = price (the (PRODUCTS_get (product_id item)))"

definition catalog_name :: "cart_line \<Rightarrow> string" where
  "catalog_name item = name (the (PRODUCTS_get (product_id item)))"

definition total_spec :: "cart \<Rightarrow> int" where
  "total_spec cart_list =
     (\<Sum>item\<leftarrow>filter resolves cart_list. catalog_price item * quantity item)"

definition detail_spec :: "cart_line \<Rightarrow> line_detail" where
  "detail_spec item =
     \<lparr>d_product_id = product_id item, d_name = catalog_name item,
      d_price = catalog_price item, d_quantity = quantity item,
      d_subtotal = catalog_price item * quantity item\<rparr>"

definition view_spec :: "cart \<Rightarrow> line_detail list" where
  "view_spec cart_list = map detail_spec (filter resolves cart_list)"

section \<open>Facts about the lookup in the cart\<close>

lemma find_cart_item_None: "find_cart_item c pid = None \<longleftrightarrow> pid \<notin> product_id ` set c"
  by (induction c) auto

lemma find_cart_item_Some:
  "find_cart_item c pid = Some i \<Longrightarrow>
     i < length c \<and> product_id (c ! i) = pid \<and> pid \<notin> product_id ` set (take i c)"
proof (induction c arbitrary: i)
  case Nil
  then show ?case by simp
next
  case (Cons item rest)
  show ?case
  proof (cases "product_id item = pid")
    case True
    with Cons.prems show ?thesis by simp
  next
    case False
    with Cons.prems obtain j where j: "find_cart_item rest pid = Some j" "i = Suc j"
      by auto
    from Cons.IH [OF j(1)] False j(2) show ?thesis by auto
  qed
qed

lemma remove1_nth_first:
  "i < length c \<Longrightarrow> c ! i \<notin> set (take i c) \<Longrightarrow> remove1 (c ! i) c = take i c @ drop (Suc i) c"
proof -
  assume a: "i < length c" "c ! i \<notin> set (take i c)"
  have "c = take i c @ c ! i # drop (Suc i) c"
    using a(1) by (simp add: id_take_nth_drop)
  then have "remove1 (c ! i) c = remove1 (c ! i) (take i c @ c ! i # drop (Suc i) c)"
    by simp
  also have "\<dots> = take i c @ remove1 (c ! i) (c ! i # drop (Suc i) c)"
    using a(2) by (simp add: remove1_append)
  finally show ?thesis by simp
qed


lemma find_cart_item_split:
  assumes "pid \<in> product_id ` set c"
  obtains i where "find_cart_item c pid = Some i" "i < length c"
    "product_id (c ! i) = pid" "pid \<notin> product_id ` set (take i c)"
    "c = take i c @ c ! i # drop (Suc i) c"
proof -
  from assms obtain i where i: "find_cart_item c pid = Some i"
    using find_cart_item_None [of c pid] by auto
  from find_cart_item_Some [OF i] have p: "i < length c" "product_id (c ! i) = pid"
    "pid \<notin> product_id ` set (take i c)" by simp_all
  from p(1) have "c = take i c @ c ! i # drop (Suc i) c"
    by (simp add: id_take_nth_drop)
  with i p that show thesis by blast
qed


section \<open>Adding to the cart\<close>

text \<open>
  Claim C1. \<^verbatim>\<open>add_to_cart\<close> makes its checks in this order: a product id that is
  not a key of \<^verbatim>\<open>PRODUCTS\<close> gives \<open>InvalidProduct\<close>; a known product with a
  quantity of 0 or less gives \<open>InvalidQuantity\<close>; otherwise the call succeeds. If
  the cart has a line for the product, the first such line gets the quantity added
  and every line, that one included, stays where it was: the cart \<open>xs @ l # ys\<close>
  becomes \<open>xs @ l' # ys\<close>. If the cart has no such line, the line
  \<open>{pid, qty}\<close> is appended at the end.
\<close>

theorem add_to_cart_spec:
  "(PRODUCTS_get pid = None \<longrightarrow> fst (add_to_cart c pid qty) = (False, Some InvalidProduct)) \<and>
   (PRODUCTS_get pid \<noteq> None \<and> qty \<le> 0 \<longrightarrow>
      fst (add_to_cart c pid qty) = (False, Some InvalidQuantity)) \<and>
   (PRODUCTS_get pid \<noteq> None \<and> 0 < qty \<and> pid \<in> product_id ` set c \<longrightarrow>
      (\<exists>xs l ys. c = xs @ l # ys \<and> product_id l = pid \<and> pid \<notin> product_id ` set xs \<and>
         add_to_cart c pid qty =
           ((True, None), xs @ l\<lparr>quantity := quantity l + qty\<rparr> # ys))) \<and>
   (PRODUCTS_get pid \<noteq> None \<and> 0 < qty \<and> pid \<notin> product_id ` set c \<longrightarrow>
      add_to_cart c pid qty = ((True, None), c @ [\<lparr>product_id = pid, quantity = qty\<rparr>]))"
proof (intro conjI impI)
  show "fst (add_to_cart c pid qty) = (False, Some InvalidProduct)" if "PRODUCTS_get pid = None"
    using that by (simp add: add_to_cart_def)
  show "fst (add_to_cart c pid qty) = (False, Some InvalidQuantity)"
    if "PRODUCTS_get pid \<noteq> None \<and> qty \<le> 0"
    using that by (simp add: add_to_cart_def)
  show "add_to_cart c pid qty = ((True, None), c @ [\<lparr>product_id = pid, quantity = qty\<rparr>])"
    if "PRODUCTS_get pid \<noteq> None \<and> 0 < qty \<and> pid \<notin> product_id ` set c"
  proof -
    from that have "find_cart_item c pid = None"
      by (simp add: find_cart_item_None)
    with that show ?thesis by (simp add: add_to_cart_def)
  qed
  show "\<exists>xs l ys. c = xs @ l # ys \<and> product_id l = pid \<and> pid \<notin> product_id ` set xs \<and>
         add_to_cart c pid qty = ((True, None), xs @ l\<lparr>quantity := quantity l + qty\<rparr> # ys)"
    if h: "PRODUCTS_get pid \<noteq> None \<and> 0 < qty \<and> pid \<in> product_id ` set c"
  proof -
    from h have "pid \<in> product_id ` set c" by simp
    then obtain i where i: "find_cart_item c pid = Some i" "i < length c"
      "product_id (c ! i) = pid" "pid \<notin> product_id ` set (take i c)"
      "c = take i c @ c ! i # drop (Suc i) c"
      by (rule find_cart_item_split)
    have "add_to_cart c pid qty =
        ((True, None), c[i := (c ! i)\<lparr>quantity := quantity (c ! i) + qty\<rparr>])"
      using h i(1) by (simp add: add_to_cart_def)
    also have "c[i := (c ! i)\<lparr>quantity := quantity (c ! i) + qty\<rparr>] =
        take i c @ (c ! i)\<lparr>quantity := quantity (c ! i) + qty\<rparr> # drop (Suc i) c"
      using i(2) by (simp add: upd_conv_take_nth_drop)
    finally show ?thesis using i(3,4,5) by blast
  qed
qed


theorem add_to_cart_spec_witness:
  "PRODUCTS_get 9 = None \<and> fst (add_to_cart [] 9 1) = (False, Some InvalidProduct) \<and>
   PRODUCTS_get 1 \<noteq> None \<and> (0::int) \<le> 0 \<and>
   fst (add_to_cart [] 1 0) = (False, Some InvalidQuantity) \<and>
   (0::int) < 2 \<and> 1 \<notin> product_id ` set [\<lparr>product_id = 3, quantity = 1\<rparr>] \<and>
   add_to_cart [\<lparr>product_id = 3, quantity = 1\<rparr>] 1 2 =
     ((True, None), [\<lparr>product_id = 3, quantity = 1\<rparr>, \<lparr>product_id = 1, quantity = 2\<rparr>]) \<and>
   (0::int) < 4 \<and>
   1 \<in> product_id ` set [\<lparr>product_id = 3, quantity = 1\<rparr>, \<lparr>product_id = 1, quantity = 2\<rparr>,
                           \<lparr>product_id = 2, quantity = 5\<rparr>] \<and>
   add_to_cart
     [\<lparr>product_id = 3, quantity = 1\<rparr>, \<lparr>product_id = 1, quantity = 2\<rparr>,
      \<lparr>product_id = 2, quantity = 5\<rparr>] 1 4 =
     ((True, None),
      [\<lparr>product_id = 3, quantity = 1\<rparr>, \<lparr>product_id = 1, quantity = 6\<rparr>,
       \<lparr>product_id = 2, quantity = 5\<rparr>])"
  using add_to_cart_spec [where pid = 9 and c = "[]" and qty = 1]
    add_to_cart_spec [where pid = 1 and c = "[]" and qty = 0]
    add_to_cart_spec [where pid = 1 and c = "[\<lparr>product_id = 3, quantity = 1\<rparr>]" and qty = 2]
    add_to_cart_spec [where pid = 1 and qty = 4 and
      c = "[\<lparr>product_id = 3, quantity = 1\<rparr>, \<lparr>product_id = 1, quantity = 2\<rparr>,
           \<lparr>product_id = 2, quantity = 5\<rparr>]"]
  by (simp add: PRODUCTS_get_def PRODUCTS_def add_to_cart_def)

section \<open>Removing from the cart\<close>

text \<open>
  Claim C2. \<^verbatim>\<open>remove_from_cart\<close> makes its checks in this order: a product id
  with no line in the cart gives \<open>ItemNotFound\<close>; a product with a line and a
  quantity of 0 or less gives \<open>InvalidQuantity\<close>; otherwise the call succeeds. The
  cart is then \<open>xs @ l # ys\<close> with \<open>l\<close> its first line for the product: if the
  quantity given is at least that of \<open>l\<close> the result is \<open>xs @ ys\<close>, and if it is
  smaller the result is \<open>xs @ l' # ys\<close> with the quantity of \<open>l\<close> reduced by it.
\<close>

theorem remove_from_cart_spec:
  "(pid \<notin> product_id ` set c \<longrightarrow>
      fst (remove_from_cart c pid qty) = (False, Some ItemNotFound)) \<and>
   (pid \<in> product_id ` set c \<and> qty \<le> 0 \<longrightarrow>
      fst (remove_from_cart c pid qty) = (False, Some InvalidQuantity)) \<and>
   (pid \<in> product_id ` set c \<and> 0 < qty \<longrightarrow>
      (\<exists>xs l ys. c = xs @ l # ys \<and> product_id l = pid \<and> pid \<notin> product_id ` set xs \<and>
         remove_from_cart c pid qty =
           ((True, None),
            if quantity l \<le> qty then xs @ ys
            else xs @ l\<lparr>quantity := quantity l - qty\<rparr> # ys)))"
proof (intro conjI impI)
  show "fst (remove_from_cart c pid qty) = (False, Some ItemNotFound)"
    if "pid \<notin> product_id ` set c"
  proof -
    from that have "find_cart_item c pid = None"
      by (simp add: find_cart_item_None)
    then show ?thesis by (simp add: remove_from_cart_def)
  qed
  show "fst (remove_from_cart c pid qty) = (False, Some InvalidQuantity)"
    if h: "pid \<in> product_id ` set c \<and> qty \<le> 0"
  proof -
    from h have "pid \<in> product_id ` set c" by simp
    then obtain i where "find_cart_item c pid = Some i"
      by (rule find_cart_item_split)
    with h show ?thesis by (simp add: remove_from_cart_def)
  qed
  show "\<exists>xs l ys. c = xs @ l # ys \<and> product_id l = pid \<and> pid \<notin> product_id ` set xs \<and>
         remove_from_cart c pid qty =
           ((True, None),
            if quantity l \<le> qty then xs @ ys
            else xs @ l\<lparr>quantity := quantity l - qty\<rparr> # ys)"
    if h: "pid \<in> product_id ` set c \<and> 0 < qty"
  proof -
    from h have "pid \<in> product_id ` set c" by simp
    then obtain i where i: "find_cart_item c pid = Some i" "i < length c"
      "product_id (c ! i) = pid" "pid \<notin> product_id ` set (take i c)"
      "c = take i c @ c ! i # drop (Suc i) c"
      by (rule find_cart_item_split)
    from i(3,4) have "c ! i \<notin> set (take i c)" by auto
    with i(2) have del: "remove1 (c ! i) c = take i c @ drop (Suc i) c"
      by (rule remove1_nth_first)
    have upd: "c[i := (c ! i)\<lparr>quantity := quantity (c ! i) - qty\<rparr>] =
        take i c @ (c ! i)\<lparr>quantity := quantity (c ! i) - qty\<rparr> # drop (Suc i) c"
      using i(2) by (simp add: upd_conv_take_nth_drop)
    have "remove_from_cart c pid qty =
        ((True, None),
         if quantity (c ! i) \<le> qty then take i c @ drop (Suc i) c
         else take i c @ (c ! i)\<lparr>quantity := quantity (c ! i) - qty\<rparr> # drop (Suc i) c)"
      using h i(1) del upd by (simp add: remove_from_cart_def)
    with i(3,4,5) show ?thesis by blast
  qed
qed


theorem remove_from_cart_spec_witness:
  "1 \<notin> product_id ` set [\<lparr>product_id = 3, quantity = 1\<rparr>] \<and>
   fst (remove_from_cart [\<lparr>product_id = 3, quantity = 1\<rparr>] 1 2) = (False, Some ItemNotFound) \<and>
   3 \<in> product_id ` set [\<lparr>product_id = 3, quantity = 1\<rparr>] \<and> (0::int) \<le> 0 \<and>
   fst (remove_from_cart [\<lparr>product_id = 3, quantity = 1\<rparr>] 3 0) = (False, Some InvalidQuantity) \<and>
   1 \<in> product_id ` set [\<lparr>product_id = 3, quantity = 1\<rparr>, \<lparr>product_id = 1, quantity = 6\<rparr>,
                           \<lparr>product_id = 2, quantity = 5\<rparr>] \<and>
   (0::int) < 4 \<and>
   remove_from_cart
     [\<lparr>product_id = 3, quantity = 1\<rparr>, \<lparr>product_id = 1, quantity = 6\<rparr>,
      \<lparr>product_id = 2, quantity = 5\<rparr>] 1 4 =
     ((True, None),
      [\<lparr>product_id = 3, quantity = 1\<rparr>, \<lparr>product_id = 1, quantity = 2\<rparr>,
       \<lparr>product_id = 2, quantity = 5\<rparr>]) \<and>
   (0::int) < 6 \<and>
   remove_from_cart
     [\<lparr>product_id = 3, quantity = 1\<rparr>, \<lparr>product_id = 1, quantity = 6\<rparr>,
      \<lparr>product_id = 2, quantity = 5\<rparr>] 1 6 =
     ((True, None), [\<lparr>product_id = 3, quantity = 1\<rparr>, \<lparr>product_id = 2, quantity = 5\<rparr>])"
  using remove_from_cart_spec [where pid = 1 and c = "[\<lparr>product_id = 3, quantity = 1\<rparr>]" and qty = 2]
    remove_from_cart_spec [where pid = 3 and c = "[\<lparr>product_id = 3, quantity = 1\<rparr>]" and qty = 0]
    remove_from_cart_spec [where pid = 1 and qty = 4 and
      c = "[\<lparr>product_id = 3, quantity = 1\<rparr>, \<lparr>product_id = 1, quantity = 6\<rparr>,
           \<lparr>product_id = 2, quantity = 5\<rparr>]"]
    remove_from_cart_spec [where pid = 1 and qty = 6 and
      c = "[\<lparr>product_id = 3, quantity = 1\<rparr>, \<lparr>product_id = 1, quantity = 6\<rparr>,
           \<lparr>product_id = 2, quantity = 5\<rparr>]"]
  by (simp add: remove_from_cart_def)


section \<open>Rejected calls leave the cart alone\<close>

text \<open>
  Claim C6 says that \<^verbatim>\<open>add_to_cart\<close> with a quantity of 0 or less fails with
  \<open>InvalidQuantity\<close>. The product id is checked before the quantity, so with an
  unknown product id and the quantity 0 the call fails with \<open>InvalidProduct\<close>
  instead.
\<close>

theorem add_to_cart_reject_counterexample:
  "(0::int) \<le> 0 \<and> add_to_cart [] 9 0 = ((False, Some InvalidProduct), []) \<and>
   fst (add_to_cart [] 9 0) \<noteq> (False, Some InvalidQuantity)"
  by (simp add: add_to_cart_def PRODUCTS_get_def PRODUCTS_def)

text \<open>
  Claim C6, amended. A call of \<^verbatim>\<open>add_to_cart\<close> with a product id that is not in
  the catalog fails with \<open>InvalidProduct\<close>, whatever the quantity; a call with a
  product id of the catalog and a quantity of 0 or less fails with
  \<open>InvalidQuantity\<close>. Both return the cart exactly as it was.
\<close>

theorem add_to_cart_reject:
  "(PRODUCTS_get pid = None \<longrightarrow> add_to_cart c pid qty = ((False, Some InvalidProduct), c)) \<and>
   (PRODUCTS_get pid \<noteq> None \<and> qty \<le> 0 \<longrightarrow>
      add_to_cart c pid qty = ((False, Some InvalidQuantity), c))"
  by (simp add: add_to_cart_def)

theorem add_to_cart_reject_witness:
  "PRODUCTS_get 9 = None \<and>
   add_to_cart [\<lparr>product_id = 3, quantity = 1\<rparr>] 9 (- 2) =
     ((False, Some InvalidProduct), [\<lparr>product_id = 3, quantity = 1\<rparr>]) \<and>
   PRODUCTS_get 3 \<noteq> None \<and> (- 2 :: int) \<le> 0 \<and>
   add_to_cart [\<lparr>product_id = 3, quantity = 1\<rparr>] 3 (- 2) =
     ((False, Some InvalidQuantity), [\<lparr>product_id = 3, quantity = 1\<rparr>])"
  using add_to_cart_reject [where pid = 9 and qty = "- 2" and c = "[\<lparr>product_id = 3, quantity = 1\<rparr>]"]
    add_to_cart_reject [where pid = 3 and qty = "- 2" and c = "[\<lparr>product_id = 3, quantity = 1\<rparr>]"]
  by (simp add: PRODUCTS_get_def PRODUCTS_def)

text \<open>
  Claim C10. Whenever \<^verbatim>\<open>remove_from_cart\<close> fails, the cart it returns is the cart
  it was given, and the error is \<open>ItemNotFound\<close> or \<open>InvalidQuantity\<close>. The
  lookup in the cart comes first: without a line for the product id the result is
  \<open>ItemNotFound\<close> for every quantity, those of 0 or less included.
\<close>

theorem remove_from_cart_reject:
  "(\<not> fst (fst (remove_from_cart c pid qty)) \<longrightarrow>
      snd (remove_from_cart c pid qty) = c \<and>
      (snd (fst (remove_from_cart c pid qty)) = Some ItemNotFound \<or>
       snd (fst (remove_from_cart c pid qty)) = Some InvalidQuantity)) \<and>
   (pid \<notin> product_id ` set c \<longrightarrow>
      remove_from_cart c pid qty = ((False, Some ItemNotFound), c))"
proof -
  have unchanged: "snd (remove_from_cart c pid qty) = c \<and>
      (snd (fst (remove_from_cart c pid qty)) = Some ItemNotFound \<or>
       snd (fst (remove_from_cart c pid qty)) = Some InvalidQuantity)"
    if "\<not> fst (fst (remove_from_cart c pid qty))"
    using that by (auto simp: remove_from_cart_def split: option.splits if_splits)
  have first: "remove_from_cart c pid qty = ((False, Some ItemNotFound), c)"
    if "pid \<notin> product_id ` set c"
  proof -
    from that have "find_cart_item c pid = None"
      by (simp add: find_cart_item_None)
    then show ?thesis by (simp add: remove_from_cart_def)
  qed
  from unchanged first show ?thesis by blast
qed

theorem remove_from_cart_reject_witness:
  "\<not> fst (fst (remove_from_cart [\<lparr>product_id = 3, quantity = 1\<rparr>] 3 0)) \<and>
   remove_from_cart [\<lparr>product_id = 3, quantity = 1\<rparr>] 3 0 =
     ((False, Some InvalidQuantity), [\<lparr>product_id = 3, quantity = 1\<rparr>]) \<and>
   1 \<notin> product_id ` set [\<lparr>product_id = 3, quantity = 1\<rparr>] \<and> (0::int) \<le> 0 \<and>
   remove_from_cart [\<lparr>product_id = 3, quantity = 1\<rparr>] 1 0 =
     ((False, Some ItemNotFound), [\<lparr>product_id = 3, quantity = 1\<rparr>])"
  using remove_from_cart_reject [where pid = 3 and qty = 0 and c = "[\<lparr>product_id = 3, quantity = 1\<rparr>]"]
    remove_from_cart_reject [where pid = 1 and qty = 0 and c = "[\<lparr>product_id = 3, quantity = 1\<rparr>]"]
  by (simp add: remove_from_cart_def)


section \<open>The invariant of the cart\<close>

lemma cart_inv_add: "cart_inv c \<Longrightarrow> cart_inv (snd (add_to_cart c pid qty))"
proof (cases "find_cart_item c pid")
  case None
  assume "cart_inv c"
  with None show ?thesis
    by (simp add: add_to_cart_def cart_inv_def)
next
  case (Some i)
  assume inv: "cart_inv c"
  from find_cart_item_Some [OF Some] have i: "i < length c" "product_id (c ! i) = pid"
    by simp_all
  from inv i(1) have "0 < quantity (c ! i)"
    by (simp add: cart_inv_def list_all_length)
  with inv Some i show ?thesis
    by (auto simp: add_to_cart_def cart_inv_def list_all_length nth_list_update)
qed

lemma cart_inv_remove: "cart_inv c \<Longrightarrow> cart_inv (snd (remove_from_cart c pid qty))"
proof (cases "find_cart_item c pid")
  case None
  assume "cart_inv c"
  with None show ?thesis
    by (simp add: remove_from_cart_def)
next
  case (Some i)
  assume inv: "cart_inv c"
  from find_cart_item_Some [OF Some] have i: "i < length c" "product_id (c ! i) = pid"
    by simp_all
  have del: "cart_inv (remove1 (c ! i) c)"
    using inv set_remove1_subset [of "c ! i" c] by (auto simp: cart_inv_def list_all_iff)
  have upd: "cart_inv (c[i := (c ! i)\<lparr>quantity := quantity (c ! i) - qty\<rparr>])"
    if "qty < quantity (c ! i)"
    using inv i that by (auto simp: cart_inv_def list_all_length nth_list_update)
  from Some inv del upd show ?thesis
    by (simp add: remove_from_cart_def)
qed

lemma cart_inv_checkout: "cart_inv (snd (checkout c))"
  by (simp add: checkout_def cart_inv_def)

lemma cart_inv_perform: "cart_inv c \<Longrightarrow> cart_inv (perform c a)"
  by (cases a) (simp_all add: cart_inv_add cart_inv_remove cart_inv_checkout)

lemma cart_inv_foldl: "cart_inv c \<Longrightarrow> cart_inv (foldl perform c actions)"
  by (induction actions arbitrary: c) (simp_all add: cart_inv_perform)

text \<open>
  Claim C3. The cart after any sequence of calls of \<^verbatim>\<open>add_to_cart\<close>,
  \<^verbatim>\<open>remove_from_cart\<close> and \<^verbatim>\<open>checkout\<close> that starts from the empty cart,
  with any arguments, satisfies the invariant: every line has a product id of the
  catalog and a quantity above 0. Each of the three functions returns a cart that
  satisfies the invariant when it is given one that does.
\<close>

theorem cart_invariant:
  "cart_inv (session actions) \<and>
   (cart_inv c \<longrightarrow>
      cart_inv (snd (add_to_cart c pid qty)) \<and>
      cart_inv (snd (remove_from_cart c pid qty)) \<and>
      cart_inv (snd (checkout c)))"
proof -
  have "cart_inv []" by (simp add: cart_inv_def)
  then have "cart_inv (session actions)"
    unfolding session_def by (rule cart_inv_foldl)
  then show ?thesis
    by (simp add: cart_inv_add cart_inv_remove cart_inv_checkout)
qed

theorem cart_invariant_witness:
  "session [AddToCart 3 1, AddToCart 1 2, AddToCart 9 1, AddToCart 1 (- 1), RemoveItem 3 1] =
     [\<lparr>product_id = 1, quantity = 2\<rparr>] \<and>
   cart_inv [\<lparr>product_id = 1, quantity = 2\<rparr>] \<and>
   cart_inv (snd (add_to_cart [\<lparr>product_id = 1, quantity = 2\<rparr>] 1 3)) \<and>
   cart_inv (snd (remove_from_cart [\<lparr>product_id = 1, quantity = 2\<rparr>] 1 1)) \<and>
   cart_inv (snd (checkout [\<lparr>product_id = 1, quantity = 2\<rparr>]))"
  using cart_invariant [where c = "[\<lparr>product_id = 1, quantity = 2\<rparr>]" and pid = 1 and qty = 3
      and actions = "[AddToCart 3 1, AddToCart 1 2, AddToCart 9 1, AddToCart 1 (- 1), RemoveItem 3 1]"]
    cart_invariant [where c = "[\<lparr>product_id = 1, quantity = 2\<rparr>]" and pid = 1 and qty = 1
      and actions = "[]"]
  by (simp add: session_def add_to_cart_def remove_from_cart_def PRODUCTS_get_def PRODUCTS_def)


section \<open>Adding, then removing the same quantity\<close>

lemma find_cart_item_append_new:
  "pid \<notin> product_id ` set c \<Longrightarrow>
     find_cart_item (c @ [\<lparr>product_id = pid, quantity = qty\<rparr>]) pid = Some (length c)"
  by (induction c) auto

lemma find_cart_item_ids:
  "map product_id c = map product_id c' \<Longrightarrow> find_cart_item c pid = find_cart_item c' pid"
proof (induction c arbitrary: c')
  case Nil
  then show ?case by simp
next
  case (Cons item rest)
  then obtain item' rest' where c': "c' = item' # rest'" by (cases c') auto
  with Cons.prems have "product_id item = product_id item'" "map product_id rest = map product_id rest'"
    by simp_all
  with Cons.IH [of rest'] c' show ?case by simp
qed

lemma find_cart_item_update:
  "i < length c \<Longrightarrow>
     find_cart_item (c[i := (c ! i)\<lparr>quantity := q\<rparr>]) pid = find_cart_item c pid"
  by (rule find_cart_item_ids) (simp add: map_update list_update_same_conv)

lemma add_then_remove_inv:
  assumes inv: "cart_inv c" and known: "PRODUCTS_get pid \<noteq> None" and pos: "0 < qty"
  shows "fst (add_to_cart c pid qty) = (True, None) \<and>
         remove_from_cart (snd (add_to_cart c pid qty)) pid qty = ((True, None), c)"
proof (cases "find_cart_item c pid")
  case None
  then have absent: "pid \<notin> product_id ` set c"
    by (simp add: find_cart_item_None)
  let ?new = "\<lparr>product_id = pid, quantity = qty\<rparr>"
  have added: "add_to_cart c pid qty = ((True, None), c @ [?new])"
    using None known pos by (simp add: add_to_cart_def)
  have found: "find_cart_item (c @ [?new]) pid = Some (length c)"
    using absent by (rule find_cart_item_append_new)
  from absent have "?new \<notin> set c" by force
  then have "remove1 ?new (c @ [?new]) = c"
    by (simp add: remove1_append)
  then have "remove_from_cart (c @ [?new]) pid qty = ((True, None), c)"
    using found pos by (simp add: remove_from_cart_def)
  with added show ?thesis by simp
next
  case (Some i)
  from find_cart_item_Some [OF Some] have i: "i < length c" by simp
  with inv have old: "0 < quantity (c ! i)"
    by (simp add: cart_inv_def list_all_length)
  let ?c' = "c[i := (c ! i)\<lparr>quantity := quantity (c ! i) + qty\<rparr>]"
  have added: "add_to_cart c pid qty = ((True, None), ?c')"
    using Some known pos by (simp add: add_to_cart_def)
  have found: "find_cart_item ?c' pid = Some i"
    using i Some by (simp add: find_cart_item_update)
  have "?c'[i := (?c' ! i)\<lparr>quantity := quantity (?c' ! i) - qty\<rparr>] = c"
    using i by (simp add: list_update_same_conv)
  then have "remove_from_cart ?c' pid qty = ((True, None), c)"
    using found pos old i by (simp add: remove_from_cart_def)
  with added show ?thesis by simp
qed

text \<open>
  Claim C7. Let \<open>pid\<close> be a product of the catalog and \<open>qty\<close> be above 0. On a
  cart that satisfies the invariant of the data model (every line a catalog product
  with a quantity above 0), and so on the cart of every session,
  \<^verbatim>\<open>add_to_cart\<close> succeeds and \<^verbatim>\<open>remove_from_cart\<close> with the same product
  and quantity then succeeds and returns the cart as it was before the two calls: a
  line that the first call appended is deleted, and a line that it incremented has
  its old quantity at its old position.
\<close>

theorem add_then_remove:
  assumes known: "PRODUCTS_get pid \<noteq> None" and pos: "0 < qty"
  shows "(cart_inv c \<longrightarrow>
            fst (add_to_cart c pid qty) = (True, None) \<and>
            remove_from_cart (snd (add_to_cart c pid qty)) pid qty = ((True, None), c)) \<and>
         fst (add_to_cart (session actions) pid qty) = (True, None) \<and>
         remove_from_cart (snd (add_to_cart (session actions) pid qty)) pid qty =
           ((True, None), session actions)"
proof -
  have "cart_inv []" by (simp add: cart_inv_def)
  then have "cart_inv (session actions)"
    unfolding session_def by (rule cart_inv_foldl)
  then show ?thesis
    using add_then_remove_inv [OF _ known pos] by blast
qed

theorem add_then_remove_witness:
  "PRODUCTS_get 1 \<noteq> None \<and> PRODUCTS_get 2 \<noteq> None \<and> (0::int) < 4 \<and>
   cart_inv [\<lparr>product_id = 3, quantity = 1\<rparr>, \<lparr>product_id = 1, quantity = 2\<rparr>] \<and>
   session [AddToCart 3 1, AddToCart 1 2] =
     [\<lparr>product_id = 3, quantity = 1\<rparr>, \<lparr>product_id = 1, quantity = 2\<rparr>] \<and>
   add_to_cart [\<lparr>product_id = 3, quantity = 1\<rparr>, \<lparr>product_id = 1, quantity = 2\<rparr>] 1 4 =
     ((True, None), [\<lparr>product_id = 3, quantity = 1\<rparr>, \<lparr>product_id = 1, quantity = 6\<rparr>]) \<and>
   remove_from_cart [\<lparr>product_id = 3, quantity = 1\<rparr>, \<lparr>product_id = 1, quantity = 6\<rparr>] 1 4 =
     ((True, None), [\<lparr>product_id = 3, quantity = 1\<rparr>, \<lparr>product_id = 1, quantity = 2\<rparr>]) \<and>
   add_to_cart [\<lparr>product_id = 3, quantity = 1\<rparr>, \<lparr>product_id = 1, quantity = 2\<rparr>] 2 4 =
     ((True, None),
      [\<lparr>product_id = 3, quantity = 1\<rparr>, \<lparr>product_id = 1, quantity = 2\<rparr>,
       \<lparr>product_id = 2, quantity = 4\<rparr>]) \<and>
   remove_from_cart
     [\<lparr>product_id = 3, quantity = 1\<rparr>, \<lparr>product_id = 1, quantity = 2\<rparr>,
      \<lparr>product_id = 2, quantity = 4\<rparr>] 2 4 =
     ((True, None), [\<lparr>product_id = 3, quantity = 1\<rparr>, \<lparr>product_id = 1, quantity = 2\<rparr>])"
proof -
  let ?c = "[\<lparr>product_id = 3, quantity = 1\<rparr>, \<lparr>product_id = 1, quantity = 2\<rparr>]"
  have inv: "cart_inv ?c"
    by (simp add: cart_inv_def PRODUCTS_get_def PRODUCTS_def)
  have k1: "PRODUCTS_get 1 \<noteq> None" and k2: "PRODUCTS_get 2 \<noteq> None"
    by (simp_all add: PRODUCTS_get_def PRODUCTS_def)
  have pos: "(0::int) < 4" by simp
  have s: "session [AddToCart 3 1, AddToCart 1 2] = ?c"
    using k1 by (simp add: session_def add_to_cart_def PRODUCTS_get_def PRODUCTS_def)
  have a1: "add_to_cart ?c 1 4 =
      ((True, None), [\<lparr>product_id = 3, quantity = 1\<rparr>, \<lparr>product_id = 1, quantity = 6\<rparr>])"
    and a2: "add_to_cart ?c 2 4 = ((True, None), ?c @ [\<lparr>product_id = 2, quantity = 4\<rparr>])"
    using k1 k2 by (simp_all add: add_to_cart_def)
  from add_then_remove [OF k1 pos, where c = ?c and actions = "[AddToCart 3 1, AddToCart 1 2]"]
    add_then_remove [OF k2 pos, where c = ?c and actions = "[]"] inv k1 k2 s a1 a2
  show ?thesis by simp
qed


section \<open>The total and the checkout\<close>

lemma calculate_total_loop_sum:
  "calculate_total_loop c tot = tot + total_spec c"
  by (induction c arbitrary: tot)
    (auto simp: total_spec_def resolves_def catalog_price_def Let_def split: option.splits)

text \<open>
  Claim C5. \<^verbatim>\<open>calculate_total\<close> returns the sum of price times quantity over the
  lines of the cart whose product id resolves in the catalog, the price being the
  catalog's price of the line's product; for the empty cart it returns 0.
\<close>

theorem calculate_total_sum:
  "calculate_total c =
     (\<Sum>item\<leftarrow>filter resolves c. catalog_price item * quantity item) \<and>
   calculate_total [] = 0"
  by (simp add: calculate_total_def calculate_total_loop_sum total_spec_def)

theorem calculate_total_sum_witness:
  "filter resolves [\<lparr>product_id = 1, quantity = 2\<rparr>, \<lparr>product_id = 9, quantity = 7\<rparr>,
                    \<lparr>product_id = 3, quantity = 1\<rparr>] =
     [\<lparr>product_id = 1, quantity = 2\<rparr>, \<lparr>product_id = 3, quantity = 1\<rparr>] \<and>
   calculate_total [\<lparr>product_id = 1, quantity = 2\<rparr>, \<lparr>product_id = 9, quantity = 7\<rparr>,
                    \<lparr>product_id = 3, quantity = 1\<rparr>] = 120000 * 2 + 5000 * 1"
  using calculate_total_sum [where c = "[\<lparr>product_id = 1, quantity = 2\<rparr>,
    \<lparr>product_id = 9, quantity = 7\<rparr>, \<lparr>product_id = 3, quantity = 1\<rparr>]"]
  by (simp add: resolves_def catalog_price_def PRODUCTS_get_def PRODUCTS_def)

text \<open>
  Claim C4. \<^verbatim>\<open>checkout\<close> has no failing branch: for every cart it returns what
  \<^verbatim>\<open>calculate_total\<close> returns on the cart it is given, and leaves the empty
  cart. On the empty cart it returns 0. On the cart \<open>[{1,2},{3,1}]\<close> it returns
  245000, and a second checkout right after it returns 0.
\<close>

theorem checkout_total:
  "fst (checkout c) = calculate_total c \<and> snd (checkout c) = [] \<and>
   checkout [] = (0, []) \<and>
   checkout [\<lparr>product_id = 1, quantity = 2\<rparr>, \<lparr>product_id = 3, quantity = 1\<rparr>] = (245000, []) \<and>
   fst (checkout (snd (checkout [\<lparr>product_id = 1, quantity = 2\<rparr>, \<lparr>product_id = 3, quantity = 1\<rparr>])))
     = 0"
  by (simp add: checkout_def calculate_total_def PRODUCTS_get_def PRODUCTS_def)

section \<open>Viewing the cart\<close>

lemma view_cart_loop_append:
  "view_cart_loop c items = items @ view_spec c"
  by (induction c arbitrary: items)
    (auto simp: view_spec_def detail_spec_def resolves_def catalog_price_def catalog_name_def
      Let_def split: option.splits)

text \<open>
  Claim C8. \<^verbatim>\<open>view_cart\<close> returns, in the order of the cart, one detail for each
  line whose product id resolves in the catalog, and nothing for a line whose
  product id does not. The detail of a line has the line's product id and quantity,
  the catalog's name and price of that product, and their product as subtotal. On a
  cart that satisfies the invariant no line is skipped.
\<close>

theorem view_cart_details:
  "view_cart c = map detail_spec (filter resolves c) \<and>
   map d_product_id (view_cart c) = map product_id (filter resolves c) \<and>
   map d_quantity (view_cart c) = map quantity (filter resolves c) \<and>
   list_all (\<lambda>d. d_subtotal d = d_price d * d_quantity d) (view_cart c) \<and>
   (cart_inv c \<longrightarrow> length (view_cart c) = length c \<and>
      map d_product_id (view_cart c) = map product_id c)"
proof -
  have v: "view_cart c = map detail_spec (filter resolves c)"
    by (simp add: view_cart_def view_cart_loop_append view_spec_def)
  have all: "filter resolves c = c" if "cart_inv c"
    using that by (simp add: cart_inv_def resolves_def list_all_iff)
  show ?thesis
    using all by (simp add: v detail_spec_def list_all_iff comp_def)
qed

theorem view_cart_details_witness:
  "cart_inv [\<lparr>product_id = 1, quantity = 2\<rparr>, \<lparr>product_id = 3, quantity = 1\<rparr>] \<and>
   view_cart [\<lparr>product_id = 1, quantity = 2\<rparr>, \<lparr>product_id = 3, quantity = 1\<rparr>] =
     [\<lparr>d_product_id = 1, d_name = ''Laptop'', d_price = 120000, d_quantity = 2,
        d_subtotal = 240000\<rparr>,
      \<lparr>d_product_id = 3, d_name = ''Headphones'', d_price = 5000, d_quantity = 1,
        d_subtotal = 5000\<rparr>] \<and>
   view_cart [\<lparr>product_id = 1, quantity = 2\<rparr>, \<lparr>product_id = 9, quantity = 7\<rparr>,
              \<lparr>product_id = 3, quantity = 1\<rparr>] =
     [\<lparr>d_product_id = 1, d_name = ''Laptop'', d_price = 120000, d_quantity = 2,
        d_subtotal = 240000\<rparr>,
      \<lparr>d_product_id = 3, d_name = ''Headphones'', d_price = 5000, d_quantity = 1,
        d_subtotal = 5000\<rparr>]"
  using view_cart_details [where c = "[\<lparr>product_id = 1, quantity = 2\<rparr>,
      \<lparr>product_id = 3, quantity = 1\<rparr>]"]
    view_cart_details [where c = "[\<lparr>product_id = 1, quantity = 2\<rparr>,
      \<lparr>product_id = 9, quantity = 7\<rparr>, \<lparr>product_id = 3, quantity = 1\<rparr>]"]
  by (simp add: cart_inv_def resolves_def detail_spec_def catalog_name_def catalog_price_def
      PRODUCTS_get_def PRODUCTS_def)

section \<open>Listing the products\<close>

lemma show_products_loop_append:
  "show_products_loop ps data = data @ map (\<lambda>(pid, info). (pid, name info, price info)) ps"
  by (induction ps data rule: show_products_loop.induct) simp_all

text \<open>
  Claim C9. \<^verbatim>\<open>show_products\<close> reads only the constant table, so it returns the
  same list on every call. The list has the ids of the catalog, each once, in
  strictly ascending order (1 to 5), and for every id it holds the name and the price
  that the catalog has for it.
\<close>

theorem show_products_catalog:
  "map fst show_products = map fst PRODUCTS \<and>
   map fst show_products = [1, 2, 3, 4, 5] \<and>
   sorted_wrt (<) (map fst show_products) \<and>
   map_of show_products pid =
     map_option (\<lambda>info. (name info, price info)) (PRODUCTS_get pid)"
proof -
  have s: "show_products = map (\<lambda>(pid, info). (pid, name info, price info)) PRODUCTS"
    by (simp add: show_products_def show_products_loop_append)
  have ids: "map fst show_products = map fst PRODUCTS"
    unfolding s by (simp add: comp_def case_prod_unfold)
  have "map_of (map (\<lambda>(pid, info). (pid, name info, price info)) ps) pid =
      map_option (\<lambda>info. (name info, price info)) (map_of ps pid)"
    for ps :: "(int \<times> product) list"
    by (induction ps) auto
  then have look: "map_of show_products pid =
      map_option (\<lambda>info. (name info, price info)) (PRODUCTS_get pid)"
    by (simp add: s PRODUCTS_get_def)
  have lit: "map fst PRODUCTS = [1, 2, 3, 4, 5]"
    by (simp add: PRODUCTS_def)
  from ids lit look show ?thesis by simp
qed

end
